theory Spec2Isabelle
  imports Main "HOL-Library.Word" "HOL-Library.Log_Nat" "HOL-Library.Finite_Map"
begin

section \<open>Time and durations\<close>

text \<open>
  A Go \<open>time.Time\<close> is modelled as the number of nanoseconds since the zero instant
  \<open>time.Time{}\<close> (1 January of year 1, UTC), so \<open>IsZero\<close> is "equals 0"; the wall clock of a
  running server reads a positive value. A \<open>time.Duration\<close> is an \<open>int64\<close> count of
  nanoseconds; \<open>Time.Sub\<close> saturates at the ends of that range, as the library does.
  \<open>Time.Add\<close> is plain addition (the instants used here are far from the ends of the
  representable range).
\<close>

type_synonym Time = int
type_synonym Duration = int

definition Second :: Duration where
  "Second = 1000000000"

definition Minute :: Duration where
  "Minute = 60 * Second"

definition Hour :: Duration where
  "Hour = 60 * Minute"

definition maxDuration :: Duration where
  "maxDuration = 2 ^ 63 - 1"

definition minDuration :: Duration where
  "minDuration = - (2 ^ 63)"

definition IsZero :: "Time \<Rightarrow> bool" where
  "IsZero t = (t = 0)"

definition Before :: "Time \<Rightarrow> Time \<Rightarrow> bool" where
  "Before t u = (t < u)"

definition After :: "Time \<Rightarrow> Time \<Rightarrow> bool" where
  "After t u = (t > u)"

definition Add :: "Time \<Rightarrow> Duration \<Rightarrow> Time" where
  "Add t d = t + d"

text \<open>Arithmetic on \<open>int64\<close> durations wraps around.\<close>

definition wrap64 :: "int \<Rightarrow> int" where
  "wrap64 x = (x + 2 ^ 63) mod 2 ^ 64 - 2 ^ 63"

definition Sub :: "Time \<Rightarrow> Time \<Rightarrow> Duration" where
  "Sub t u =
     (let d = t - u
      in if d > maxDuration then maxDuration
         else if d < minDuration then minDuration
         else d)"

section \<open>Constants and data\<close>

definition expiryDays :: int where
  "expiryDays = 365"

definition maxURLsPerSubnet :: int where
  "maxURLsPerSubnet = 10"

definition cooldownHours :: int where
  "cooldownHours = 24"

record URLData =
  Original :: string
  ShortCode :: string
  CreatedAt :: Time
  ExpiresAt :: Time
  CreatorIP :: string
  CreatorSubnet :: string

text \<open>\<open>CacheItem.ExpiresAt\<close> is \<open>ItemExpiresAt\<close> here: a record field name is global.\<close>

record CacheItem =
  OriginalURL :: string
  ItemExpiresAt :: Time

record RateLimitInfo =
  Count :: int
  FirstSeen :: Time
  Cooldown :: Time

section \<open>The persistent store\<close>

text \<open>
  The MongoDB collection is an external collaborator. It is modelled as the list of its
  documents in insertion order, with the operations the server calls. Every call can fail
  (time-out, network): the flag \<open>fails\<close> of each operation says whether this call does,
  and a failing call leaves the collection as it is.
\<close>

datatype error = StoreError | ErrNoDocuments

definition CountDocuments :: "bool \<Rightarrow> (URLData \<Rightarrow> bool) \<Rightarrow> URLData list \<Rightarrow> error + int" where
  "CountDocuments fails flt docs =
     (if fails then Inl StoreError else Inr (int (length (filter flt docs))))"

section \<open>Rate limiter\<close>

type_synonym rateLimitMap = "string \<rightharpoonup> RateLimitInfo"

text \<open>
  \<open>checkRateLimit\<close>. The source reads the clock once (\<open>now\<close>) and mutates the entry behind
  the pointer \<open>info\<close>; the model returns the triple of the source together with the updated
  map, and the returned info is the entry as it stands in the map at return.
\<close>

definition checkRateLimit ::
  "string \<Rightarrow> Time \<Rightarrow> bool \<Rightarrow> URLData list \<Rightarrow> rateLimitMap
     \<Rightarrow> (bool \<times> RateLimitInfo option \<times> error option) \<times> rateLimitMap" where
  "checkRateLimit subnet now countFails docs m =
     (case m subnet of
        Some info0 \<Rightarrow>
          let info1 = (if Sub now (FirstSeen info0) \<ge> 24 * Hour
                       then info0\<lparr>Count := 0, FirstSeen := now, Cooldown := 0\<rparr>
                       else info0)
          in if \<not> IsZero (Cooldown info1) \<and> Before now (Cooldown info1)
             then ((False, Some info1, None), m(subnet \<mapsto> info1))
             else
               let info2 = (if \<not> IsZero (Cooldown info1) \<and> After now (Cooldown info1)
                            then info1\<lparr>Cooldown := 0\<rparr>
                            else info1)
               in if Count info2 \<ge> maxURLsPerSubnet
                  then let info3 = info2\<lparr>Cooldown := Add now (cooldownHours * Hour)\<rparr>
                       in ((False, Some info3, None), m(subnet \<mapsto> info3))
                  else ((True, Some info2, None), m(subnet \<mapsto> info2))
      | None \<Rightarrow>
          let oneDayAgo = Add now (- 24 * Hour)
          in case CountDocuments countFails
                    (\<lambda>u. CreatorSubnet u = subnet \<and> CreatedAt u \<ge> oneDayAgo) docs of
               Inl err \<Rightarrow> ((False, None, Some err), m)
             | Inr count \<Rightarrow>
                 let info = \<lparr>Count = count, FirstSeen = now, Cooldown = 0\<rparr>
                 in if count \<ge> maxURLsPerSubnet
                    then let info' = info\<lparr>Cooldown := Add now (cooldownHours * Hour)\<rparr>
                         in ((False, Some info', None), m(subnet \<mapsto> info'))
                    else ((True, Some info, None), m(subnet \<mapsto> info)))"

definition incrementRateLimit :: "string \<Rightarrow> Time \<Rightarrow> rateLimitMap \<Rightarrow> rateLimitMap" where
  "incrementRateLimit subnet now m =
     (case m subnet of
        Some info \<Rightarrow>
          let info1 = info\<lparr>Count := Count info + 1\<rparr>;
              info2 = (if Count info1 \<ge> maxURLsPerSubnet
                       then info1\<lparr>Cooldown := Add now (cooldownHours * Hour)\<rparr>
                       else info1)
          in m(subnet \<mapsto> info2)
      | None \<Rightarrow> m)"

definition cleanupRateLimitMap :: "Time \<Rightarrow> rateLimitMap \<Rightarrow> rateLimitMap" where
  "cleanupRateLimitMap now m =
     (\<lambda>subnet. case m subnet of
                 Some info \<Rightarrow> if Sub now (FirstSeen info) > 24 * Hour then None else Some info
               | None \<Rightarrow> None)"

text \<open>
  A run of successful creations seen by the rate limiter: each one is a call of
  \<open>checkRateLimit\<close> at time \<open>tc\<close> that allows the request, followed (after the link has
  been stored) by the commit \<open>incrementRateLimit\<close> at time \<open>ti\<close>. The run is \<open>None\<close> as soon
  as a check does not allow its request.
\<close>

fun creations :: "string \<Rightarrow> URLData list \<Rightarrow> (Time \<times> Time) list \<Rightarrow> rateLimitMap
    \<Rightarrow> rateLimitMap option" where
  "creations subnet docs [] m = Some m"
| "creations subnet docs ((tc, ti) # evs) m =
     (case checkRateLimit subnet tc False docs m of
        ((True, _, _), m1) \<Rightarrow> creations subnet docs evs (incrementRateLimit subnet ti m1)
      | ((False, _, _), _) \<Rightarrow> None)"

section \<open>Code generator\<close>

definition letters :: string where
  "letters = ''abcdefghijklmnopqrstuvwxyzABCDEFGHIJKLMNOPQRSTUVWXYZ''"

definition digits :: string where
  "digits = ''0123456789''"

definition allChars :: string where
  "allChars = letters @ digits"

text \<open>
  The character tests of \<open>containsLetter\<close>, \<open>containsDigit\<close> and \<open>isAlphanumeric\<close>. The
  source ranges over the runes of the string; a byte of a non-ASCII rune is 128 or more
  and an ASCII byte is always a rune by itself, so testing byte by byte gives the same
  answers.
\<close>

definition isLetter :: "char \<Rightarrow> bool" where
  "isLetter c = (let n = (of_char c :: nat) in (97 \<le> n \<and> n \<le> 122) \<or> (65 \<le> n \<and> n \<le> 90))"

definition isDigit :: "char \<Rightarrow> bool" where
  "isDigit c = (let n = (of_char c :: nat) in 48 \<le> n \<and> n \<le> 57)"

fun containsLetter :: "string \<Rightarrow> bool" where
  "containsLetter [] = False"
| "containsLetter (c # s) = (if isLetter c then True else containsLetter s)"

fun containsDigit :: "string \<Rightarrow> bool" where
  "containsDigit [] = False"
| "containsDigit (c # s) = (if isDigit c then True else containsDigit s)"

text \<open>
  \<open>genCode\<close>. The results of the successive calls \<open>rand.Intn(len(allChars))\<close> are read from
  a sequence \<open>rnd\<close> (each reduced into the range \<open>[0, 62)\<close> that \<open>Intn\<close> guarantees); \<open>pos\<close>
  counts the values drawn so far. The \<open>for\<close> loop of the source has no bound: the model is
  a partial function, and \<open>None\<close> means that the loop never returns. \<open>make([]byte, n)\<close>
  panics for a negative \<open>n\<close>.
\<close>

datatype panic = NegativeLen | NilDereference

partial_function (option) genCode_loop :: "nat \<Rightarrow> (nat \<Rightarrow> nat) \<Rightarrow> nat \<Rightarrow> string option" where
  "genCode_loop n rnd pos =
     (let code = map (\<lambda>i. allChars ! (rnd (pos + i) mod length allChars)) [0..<n]
      in if containsLetter code \<and> containsDigit code then Some code
         else genCode_loop n rnd (pos + n))"

definition genCode :: "int \<Rightarrow> (nat \<Rightarrow> nat) \<Rightarrow> (panic + string) option" where
  "genCode n rnd =
     (if n < 0 then Some (Inl NegativeLen)
      else map_option Inr (genCode_loop (nat n) rnd 0))"

section \<open>Duration formatting\<close>

text \<open>
  \<open>formatDuration\<close> goes through \<open>Duration.Hours\<close>, \<open>Minutes\<close> and \<open>Seconds\<close>, which compute
  in \<open>float64\<close>. A \<open>float64\<close> value is modelled as the rational number it stands for, and
  every floating-point operation as the exact operation followed by \<open>fl64\<close>, rounding to
  the nearest number with a 53-bit significand, ties to the even significand (the values
  here stay far from the overflow and subnormal ranges). \<open>ilog2 x\<close> is the binary exponent
  of a positive \<open>x\<close>: \<open>2 ^ ilog2 x \<le> x < 2 ^ (ilog2 x + 1)\<close>.
\<close>

definition ilog2 :: "rat \<Rightarrow> int" where
  "ilog2 x =
     (if 1 \<le> x then bitlen \<lfloor>x\<rfloor> - 1
      else - bitlen (\<lceil>1 / x\<rceil> - 1))"

definition roundHalfEven :: "rat \<Rightarrow> int" where
  "roundHalfEven q =
     (let f = \<lfloor>q\<rfloor>; r = q - of_int f
      in if r < 1 / 2 then f
         else if 1 / 2 < r then f + 1
         else if even f then f else f + 1)"

definition fl64 :: "rat \<Rightarrow> rat" where
  "fl64 x =
     (if x = 0 then 0
      else let a = \<bar>x\<bar>;
               ulp = 2 powi (ilog2 a - 52);
               y = of_int (roundHalfEven (a / ulp)) * ulp
           in if x < 0 then - y else y)"

definition float64 :: "int \<Rightarrow> rat" where
  "float64 i = fl64 (of_int i)"

definition fadd :: "rat \<Rightarrow> rat \<Rightarrow> rat" where
  "fadd x y = fl64 (x + y)"

definition fdiv :: "rat \<Rightarrow> rat \<Rightarrow> rat" where
  "fdiv x y = fl64 (x / y)"

text \<open>The conversion \<open>int(f)\<close> of a \<open>float64\<close> truncates towards zero.\<close>

definition toInt :: "rat \<Rightarrow> int" where
  "toInt x = (if 0 \<le> x then \<lfloor>x\<rfloor> else \<lceil>x\<rceil>)"

text \<open>
  \<open>Hours\<close>, \<open>Minutes\<close> and \<open>Seconds\<close> of the \<open>time\<close> package:
  \<open>float64(hour) + float64(nsec)/(60*60*1e9)\<close> and alike. The constant divisors are exact
  \<open>float64\<close> values. \<open>formatDuration\<close> calls them on a non-negative duration only, where
  Go's truncating \<open>/\<close> and \<open>%\<close> are \<open>div\<close> and \<open>mod\<close>.
\<close>

definition Hours :: "Duration \<Rightarrow> rat" where
  "Hours d = (let hour = d div Hour; nsec = d mod Hour
              in fadd (float64 hour) (fdiv (float64 nsec) 3600000000000))"

definition Minutes :: "Duration \<Rightarrow> rat" where
  "Minutes d = (let min = d div Minute; nsec = d mod Minute
              in fadd (float64 min) (fdiv (float64 nsec) 60000000000))"

definition Seconds :: "Duration \<Rightarrow> rat" where
  "Seconds d = (let sec = d div Second; nsec = d mod Second
              in fadd (float64 sec) (fdiv (float64 nsec) 1000000000))"


text \<open>\<open>%d\<close> of \<open>fmt.Sprintf\<close>: decimal digits, with a sign for a negative number.\<close>

definition digitChar :: "nat \<Rightarrow> char" where
  "digitChar n = ''0123456789'' ! n"

fun decimal :: "nat \<Rightarrow> string" where
  "decimal n = (if n < 10 then [digitChar n] else decimal (n div 10) @ [digitChar (n mod 10)])"

declare decimal.simps [simp del]

definition fmtInt :: "int \<Rightarrow> string" where
  "fmtInt i = (if i < 0 then CHR ''-'' # decimal (nat (- i)) else decimal (nat i))"

definition formatDuration :: "Duration \<Rightarrow> string" where
  "formatDuration d =
     (if d < 0 then ''0 seconds''
      else
        let days = toInt (fdiv (Hours d) 24);
            hours = toInt (Hours d) mod 24;
            minutes = toInt (Minutes d) mod 60;
            seconds = toInt (Seconds d) mod 60
        in if days > 0 then fmtInt days @ '' days '' @ fmtInt hours @ '' hours''
           else if hours > 0 then fmtInt hours @ '' hours '' @ fmtInt minutes @ '' minutes''
           else if minutes > 0 then fmtInt minutes @ '' minutes '' @ fmtInt seconds @ '' seconds''
           else fmtInt seconds @ '' seconds'')"



section \<open>Client subnet\<close>

text \<open>
  A \<open>net.IP\<close> is a byte slice. \<open>net.ParseIP\<close> belongs to the standard library: it is a
  parameter \<open>ParseIP\<close> of the model, \<open>None\<close> standing for the \<open>nil\<close> result on an unparseable
  string. \<open>To4\<close> and \<open>To16\<close> are the library's conversions. The argument \<open>ipStr\<close> of
  \<open>getClientSubnet\<close> is the string that \<open>getClientIP(r)\<close> returned for the request.
\<close>

type_synonym IP = "8 word list"

text \<open>\<open>%02x\<close> of a byte: two lower-case hexadecimal digits.\<close>

definition hexDigit :: "nat \<Rightarrow> char" where
  "hexDigit n = ''0123456789abcdef'' ! n"

definition hex2 :: "8 word \<Rightarrow> string" where
  "hex2 b = [hexDigit (unat b div 16), hexDigit (unat b mod 16)]"

definition isZeros :: "IP \<Rightarrow> bool" where
  "isZeros p = list_all (\<lambda>b. b = 0) p"

definition To4 :: "IP \<Rightarrow> IP option" where
  "To4 ip =
     (if length ip = 4 then Some ip
      else if length ip = 16 \<and> isZeros (take 10 ip) \<and> ip ! 10 = 0xff \<and> ip ! 11 = 0xff
           then Some (drop 12 ip)
      else None)"

definition To16 :: "IP \<Rightarrow> IP option" where
  "To16 ip =
     (if length ip = 4 then Some ([0, 0, 0, 0, 0, 0, 0, 0, 0, 0, 0xff, 0xff] @ ip)
      else if length ip = 16 then Some ip
      else None)"

definition getClientSubnet :: "(string \<Rightarrow> IP option) \<Rightarrow> string \<Rightarrow> string" where
  "getClientSubnet ParseIP ipStr =
     (case ParseIP ipStr of
        None \<Rightarrow> ipStr
      | Some ip \<Rightarrow>
          (case To4 ip of
             Some ipv4 \<Rightarrow>
               decimal (unat (ipv4 ! 0)) @ ''.'' @ decimal (unat (ipv4 ! 1)) @ ''.''
                 @ decimal (unat (ipv4 ! 2)) @ ''.0/24''
           | None \<Rightarrow>
               (case To16 ip of
                  Some ipv6 \<Rightarrow>
                    hex2 (ipv6 ! 0) @ hex2 (ipv6 ! 1) @ '':'' @ hex2 (ipv6 ! 2) @ hex2 (ipv6 ! 3)
                      @ '':'' @ hex2 (ipv6 ! 4) @ hex2 (ipv6 ! 5) @ '':'' @ hex2 (ipv6 ! 6)
                      @ hex2 (ipv6 ! 7) @ ''::/64''
                | None \<Rightarrow> ipStr)))"

text \<open>A small table standing for the parser on three example addresses.\<close>

definition ParseIP0 :: "string \<Rightarrow> IP option" where
  "ParseIP0 s =
     (if s = ''203.0.113.7'' then Some [0, 0, 0, 0, 0, 0, 0, 0, 0, 0, 0xff, 0xff, 203, 0, 113, 7]
      else if s = ''203.0.113.200''
        then Some [0, 0, 0, 0, 0, 0, 0, 0, 0, 0, 0xff, 0xff, 203, 0, 113, 200]
      else if s = ''2001:db8::1''
        then Some [0x20, 0x01, 0x0d, 0xb8, 0, 0, 0, 0, 0, 0, 0, 0, 0, 0, 0, 1]
      else None)"

section \<open>Store operations\<close>

text \<open>
  \<open>FindOne\<close> returns the first document that matches, \<open>DeleteOne\<close> removes the first
  document that matches, \<open>InsertOne\<close> appends (the server creates no unique index, so the
  collection accepts a second document with the same short code), \<open>DeleteMany\<close> removes
  every match and reports how many.
\<close>

fun deleteFirst :: "('a \<Rightarrow> bool) \<Rightarrow> 'a list \<Rightarrow> 'a list" where
  "deleteFirst P [] = []"
| "deleteFirst P (x # xs) = (if P x then xs else x # deleteFirst P xs)"

definition FindOne :: "bool \<Rightarrow> (URLData \<Rightarrow> bool) \<Rightarrow> URLData list \<Rightarrow> error + URLData" where
  "FindOne fails flt docs =
     (if fails then Inl StoreError
      else case find flt docs of None \<Rightarrow> Inl ErrNoDocuments | Some u \<Rightarrow> Inr u)"

definition InsertOne :: "bool \<Rightarrow> URLData \<Rightarrow> URLData list \<Rightarrow> error + URLData list" where
  "InsertOne fails d docs = (if fails then Inl StoreError else Inr (docs @ [d]))"

definition DeleteOne :: "bool \<Rightarrow> (URLData \<Rightarrow> bool) \<Rightarrow> URLData list \<Rightarrow> error + URLData list" where
  "DeleteOne fails flt docs = (if fails then Inl StoreError else Inr (deleteFirst flt docs))"

definition DeleteMany ::
  "bool \<Rightarrow> (URLData \<Rightarrow> bool) \<Rightarrow> URLData list \<Rightarrow> error + (int \<times> URLData list)" where
  "DeleteMany fails flt docs =
     (if fails then Inl StoreError
      else Inr (int (length (filter flt docs)), filter (\<lambda>u. \<not> flt u) docs))"

section \<open>Server state and responses\<close>

text \<open>
  The globals \<open>col\<close>, \<open>cache\<close> and \<open>rateLimitMap\<close> form the state of the server. The model
  is sequential: a handler or a cleanup run is one step on this state.
\<close>

record server =
  col :: "URLData list"
  cache :: "(string, CacheItem) fmap"
  rateLimitMap :: rateLimitMap

text \<open>
  What a handler reads from the request: \<open>ClientIP\<close> is the value of \<open>getClientIP(r)\<close>,
  \<open>Body\<close> the field \<open>url\<close> of the decoded JSON body (\<open>None\<close> when decoding fails), \<open>Host\<close> is
  \<open>r.Host\<close>.
\<close>

record request =
  ClientIP :: string
  Body :: "string option"
  Host :: string

text \<open>
  The JSON bodies of the 429 and 200 answers of \<open>/api/shorten\<close> (the constant fields
  \<open>success\<close> and \<open>error\<close> are left out; time stamps are kept as instants, not as RFC 3339
  text), and the answers of the handlers. \<open>Panic\<close> is a handler that dereferences \<open>nil\<close>.
\<close>

record rateLimitedBody =
  err_message :: string
  err_limit :: int
  err_subnet :: string
  err_client_ip :: string
  cooldown_until :: Time
  cooldown_remaining :: string

record createdBody =
  short_url :: string
  original_url :: string
  created_at :: Time
  expires_at :: Time
  expires_in :: string
  short_code :: string
  client_info_ip :: string
  client_info_subnet :: string
  rate_limit_remaining :: int
  rate_limit_limit :: int
  rate_limit_reset_in :: string
  rate_limit_current_subnet :: string

datatype response =
    HttpError int string
  | RateLimited rateLimitedBody
  | Created createdBody
  | Redirect string int
  | NotFound
  | ServeFile string
  | Listing int "(string, CacheItem) fmap" Time
  | Panic panic

fun status :: "response \<Rightarrow> int option" where
  "status (HttpError code msg) = Some code"
| "status (RateLimited b) = Some 429"
| "status (Created b) = Some 200"
| "status (Redirect url code) = Some code"
| "status NotFound = Some 404"
| "status (ServeFile name) = Some 200"
| "status (Listing n items t) = Some 200"
| "status (Panic p) = None"

section \<open>Handlers\<close>

definition HasPrefix :: "string \<Rightarrow> string \<Rightarrow> bool" where
  "HasPrefix s p = (length s \<ge> length p \<and> take (length p) s = p)"

definition TrimPrefix :: "string \<Rightarrow> string \<Rightarrow> string" where
  "TrimPrefix s p = (if HasPrefix s p then drop (length p) s else s)"

fun isAlphanumeric_loop :: "string \<Rightarrow> bool \<Rightarrow> bool \<Rightarrow> bool" where
  "isAlphanumeric_loop [] hasLetter hasDigit = (hasLetter \<and> hasDigit)"
| "isAlphanumeric_loop (c # s) hasLetter hasDigit =
     (if isLetter c then isAlphanumeric_loop s True hasDigit
      else if isDigit c then isAlphanumeric_loop s hasLetter True
      else False)"

definition isAlphanumeric :: "string \<Rightarrow> bool" where
  "isAlphanumeric s = (if length s \<noteq> 6 then False else isAlphanumeric_loop s False False)"

text \<open>
  \<open>shortenHandler\<close>. Its environment: the five readings of the clock in the order of the
  source (inside \<open>checkRateLimit\<close>, in the 429 branch, \<open>now\<close>, inside \<open>incrementRateLimit\<close>,
  \<open>time.Since\<close>), whether the two store calls fail, and the values of the random source.
  The result is \<open>None\<close> when \<open>genCode\<close> never returns. \<open>rateInfo\<close> points to the entry of the
  table, so the count read for \<open>remaining\<close> is the one after the commit.
\<close>

record shortenEnv =
  tCheck :: Time
  tDenied :: Time
  tCreate :: Time
  tCommit :: Time
  tReply :: Time
  countDocumentsFails :: bool
  insertOneFails :: bool
  randInts :: "nat \<Rightarrow> nat"

definition shortenHandler ::
  "(string \<Rightarrow> IP option) \<Rightarrow> shortenEnv \<Rightarrow> request \<Rightarrow> server \<Rightarrow> (response \<times> server) option" where
  "shortenHandler ParseIP env r st =
     (let clientIP = ClientIP r;
          clientSubnet = getClientSubnet ParseIP clientIP
      in case checkRateLimit clientSubnet (tCheck env) (countDocumentsFails env) (col st) (rateLimitMap st) of
           ((allowed, rateInfo, Some err), m1) \<Rightarrow>
             Some (HttpError 500 ''internal server error'', st\<lparr>rateLimitMap := m1\<rparr>)
         | ((False, None, None), m1) \<Rightarrow> Some (Panic NilDereference, st\<lparr>rateLimitMap := m1\<rparr>)
         | ((False, Some info, None), m1) \<Rightarrow>
             let remainingTime = Sub (Cooldown info) (tDenied env)
             in Some (RateLimited
                  \<lparr>err_message = ''Subnet '' @ clientSubnet @ '' telah membuat ''
                       @ fmtInt maxURLsPerSubnet @ '' shortlink hari ini. Cooldown ''
                       @ formatDuration remainingTime,
                   err_limit = maxURLsPerSubnet,
                   err_subnet = clientSubnet,
                   err_client_ip = clientIP,
                   cooldown_until = Cooldown info,
                   cooldown_remaining = formatDuration remainingTime\<rparr>,
                  st\<lparr>rateLimitMap := m1\<rparr>)
         | ((True, rateInfo, None), m1) \<Rightarrow>
             (case Body r of
                None \<Rightarrow> Some (HttpError 400 ''bad request'', st\<lparr>rateLimitMap := m1\<rparr>)
              | Some url \<Rightarrow>
                  if \<not> HasPrefix url ''http''
                  then Some (HttpError 400 ''invalid url'', st\<lparr>rateLimitMap := m1\<rparr>)
                  else
                    (case genCode 6 (randInts env) of
                       None \<Rightarrow> None
                     | Some (Inl p) \<Rightarrow> Some (Panic p, st\<lparr>rateLimitMap := m1\<rparr>)
                     | Some (Inr code) \<Rightarrow>
                         let now = tCreate env;
                             exp = Add now (expiryDays * 24 * Hour);
                             data = \<lparr>Original = url, ShortCode = code, CreatedAt = now,
                                     ExpiresAt = exp, CreatorIP = clientIP,
                                     CreatorSubnet = clientSubnet\<rparr>
                         in case InsertOne (insertOneFails env) data (col st) of
                              Inl err \<Rightarrow>
                                Some (HttpError 500 ''database error'', st\<lparr>rateLimitMap := m1\<rparr>)
                            | Inr docs' \<Rightarrow>
                                let cache' = fmupd code
                                      \<lparr>OriginalURL = url, ItemExpiresAt = exp\<rparr> (cache st);
                                    m2 = incrementRateLimit clientSubnet (tCommit env) m1;
                                    st' = \<lparr>col = docs', cache = cache', rateLimitMap = m2\<rparr>;
                                    host' = (if Host r = [] then ''localhost:5000'' else Host r);
                                    shortURL = ''http://'' @ host' @ ''/'' @ code
                                in case m2 clientSubnet of
                                     None \<Rightarrow> Some (Panic NilDereference, st')
                                   | Some info \<Rightarrow>
                                       let remaining0 = maxURLsPerSubnet - Count info - 1;
                                           remaining = (if remaining0 < 0 then 0 else remaining0)
                                       in Some (Created
                                            \<lparr>short_url = shortURL,
                                             original_url = url,
                                             created_at = now,
                                             expires_at = exp,
                                             expires_in = formatDuration (Sub exp now),
                                             short_code = code,
                                             client_info_ip = clientIP,
                                             client_info_subnet = clientSubnet,
                                             rate_limit_remaining = remaining,
                                             rate_limit_limit = maxURLsPerSubnet,
                                             rate_limit_reset_in = formatDuration
                                               (wrap64 (24 * Hour - Sub (tReply env) (FirstSeen info))),
                                             rate_limit_current_subnet = clientSubnet\<rparr>,
                                            st'))))"

text \<open>
  \<open>redirectHandler\<close>, in two parts: the cache lookup, and \<open>redirectFromStore\<close>, the rest of
  the function from \<open>col.FindOne\<close> on. A failing \<open>FindOne\<close> (or \<open>Decode\<close>) and a missing
  document both give \<open>err != nil\<close>; the result of \<open>DeleteOne\<close> is ignored.
\<close>

definition redirectFromStore ::
  "string \<Rightarrow> Time \<Rightarrow> bool \<Rightarrow> bool \<Rightarrow> server \<Rightarrow> response \<times> server" where
  "redirectFromStore code now findFails deleteFails st =
     (case FindOne findFails (\<lambda>u. ShortCode u = code) (col st) of
        Inr u \<Rightarrow>
          if Before now (ExpiresAt u)
          then (Redirect (Original u) 302,
                st\<lparr>cache := fmupd code \<lparr>OriginalURL = Original u, ItemExpiresAt = ExpiresAt u\<rparr>
                                (cache st)\<rparr>)
          else (case DeleteOne deleteFails (\<lambda>u. ShortCode u = code) (col st) of
                  Inr docs' \<Rightarrow> (NotFound, st\<lparr>col := docs'\<rparr>)
                | Inl err \<Rightarrow> (NotFound, st))
      | Inl err \<Rightarrow> (NotFound, st))"

definition redirectHandler ::
  "string \<Rightarrow> Time \<Rightarrow> bool \<Rightarrow> bool \<Rightarrow> server \<Rightarrow> response \<times> server" where
  "redirectHandler code now findFails deleteFails st =
     (case fmlookup (cache st) code of
        Some c \<Rightarrow>
          if Before now (ItemExpiresAt c) then (Redirect (OriginalURL c) 302, st)
          else redirectFromStore code now findFails deleteFails
                 (st\<lparr>cache := fmdrop code (cache st)\<rparr>)
      | None \<Rightarrow> redirectFromStore code now findFails deleteFails st)"

definition mainHandler ::
  "string \<Rightarrow> Time \<Rightarrow> bool \<Rightarrow> bool \<Rightarrow> server \<Rightarrow> response \<times> server" where
  "mainHandler urlPath now findFails deleteFails st =
     (let path = TrimPrefix urlPath ''/''
      in if path = [] then (ServeFile ''index.html'', st)
         else if length path = 6 \<and> isAlphanumeric path
              then redirectHandler path now findFails deleteFails st
         else (NotFound, st))"

definition listHandler :: "Time \<Rightarrow> server \<Rightarrow> response \<times> server" where
  "listHandler now st =
     (let activeItems =
            fmfilter (\<lambda>code. case fmlookup (cache st) code of
                                Some item \<Rightarrow> Before now (ItemExpiresAt item)
                              | None \<Rightarrow> False)
                     (cache st)
      in (Listing (int (fcard (fmdom activeItems))) activeItems now, st))"

section \<open>Cleanup\<close>

text \<open>
  \<open>performCleanup\<close> is the body of the hourly task of \<open>startPeriodicCleanup\<close>; it returns
  the lines it logs. \<open>rateLimitCleanupTick\<close> is the body of the separate hourly task of
  \<open>startRateLimitCleanup\<close>, one call of \<open>cleanupRateLimitMap\<close>.
\<close>

datatype logEntry =
    RunningCleanup
  | CleanupError error
  | CleanupComplete int int

definition performCleanup :: "Time \<Rightarrow> bool \<Rightarrow> server \<Rightarrow> logEntry list \<times> server" where
  "performCleanup now deleteFails st =
     (case DeleteMany deleteFails (\<lambda>u. ExpiresAt u < now) (col st) of
        Inl err \<Rightarrow> ([RunningCleanup, CleanupError err], st)
      | Inr (deletedCount, docs') \<Rightarrow>
          let swept = (\<lambda>code. case fmlookup (cache st) code of
                                Some item \<Rightarrow> After now (ItemExpiresAt item)
                              | None \<Rightarrow> False);
              cleanedCacheCount = int (fcard (ffilter swept (fmdom (cache st))));
              cache' = fmfilter (\<lambda>code. \<not> swept code) (cache st)
          in ((if deletedCount > 0 \<or> cleanedCacheCount > 0
               then [RunningCleanup, CleanupComplete deletedCount cleanedCacheCount]
               else [RunningCleanup]),
              st\<lparr>col := docs', cache := cache'\<rparr>))"

definition rateLimitCleanupTick :: "Time \<Rightarrow> server \<Rightarrow> server" where
  "rateLimitCleanupTick now st = st\<lparr>rateLimitMap := cleanupRateLimitMap now (rateLimitMap st)\<rparr>"


section \<open>Notions used in the statements\<close>

text \<open>
  \<open>windowStart m subnet t\<close> is the start of the 24-hour window in which a check at time
  \<open>t\<close> falls: the \<open>FirstSeen\<close> of the subnet's entry once \<open>checkRateLimit\<close> has run at
  \<open>t\<close>. The window is the one already open (whichever request opened it, also one that was
  rejected after its check), or a new one when there is no entry or the entry is 24 hours
  old.
\<close>

definition windowStart :: "rateLimitMap \<Rightarrow> string \<Rightarrow> Time \<Rightarrow> Time" where
  "windowStart m subnet t =
     (case m subnet of
        None \<Rightarrow> t
      | Some info \<Rightarrow> if Sub t (FirstSeen info) \<ge> 24 * Hour then t else FirstSeen info)"

text \<open>
  No count of the table is negative: this holds of the empty table and is kept by every
  operation of the rate limiter.
\<close>

definition countsNonneg :: "rateLimitMap \<Rightarrow> bool" where
  "countsNonneg m = (\<forall>subnet info. m subnet = Some info \<longrightarrow> 0 \<le> Count info)"

text \<open>
  What can happen to the table after the run of creations: a further creation attempt of
  the subnet (the call of \<open>checkRateLimit\<close> that \<open>shortenHandler\<close> makes first, with the
  store as it is then), a sweep of the hourly task, and a check or a commit for another
  subnet. \<open>laterAttempts\<close> runs such events in order and collects what \<open>checkRateLimit\<close>
  answered to each attempt of the subnet. \<open>inWindow subnet w e\<close>: the event \<open>e\<close> happens
  less than 24 hours after \<open>w\<close>, or belongs to another subnet.
\<close>

datatype event =
    Attempt Time bool "URLData list"
  | Sweep Time
  | OtherCheck string Time bool "URLData list"
  | OtherCommit string Time

fun laterAttempts :: "string \<Rightarrow> event list \<Rightarrow> rateLimitMap
    \<Rightarrow> (bool \<times> RateLimitInfo option \<times> error option) list" where
  "laterAttempts subnet [] m = []"
| "laterAttempts subnet (Attempt t countFails docs # es) m =
     (case checkRateLimit subnet t countFails docs m of
        (res, m1) \<Rightarrow> res # laterAttempts subnet es m1)"
| "laterAttempts subnet (Sweep t # es) m = laterAttempts subnet es (cleanupRateLimitMap t m)"
| "laterAttempts subnet (OtherCheck other t countFails docs # es) m =
     laterAttempts subnet es (snd (checkRateLimit other t countFails docs m))"
| "laterAttempts subnet (OtherCommit other t # es) m =
     laterAttempts subnet es (incrementRateLimit other t m)"

fun inWindow :: "string \<Rightarrow> Time \<Rightarrow> event \<Rightarrow> bool" where
  "inWindow subnet w (Attempt t countFails docs) = (Sub t w < 24 * Hour)"
| "inWindow subnet w (Sweep t) = (Sub t w < 24 * Hour)"
| "inWindow subnet w (OtherCheck other t countFails docs) = (other \<noteq> subnet)"
| "inWindow subnet w (OtherCommit other t) = (other \<noteq> subnet)"

text \<open>
  The scheme of a URL in the sense of the specification: the text before the first colon
  (RFC 3986), or nothing when there is no colon.
\<close>

definition spec_urlScheme :: "string \<Rightarrow> string option" where
  "spec_urlScheme url =
     (if CHR '':'' \<in> set url then Some (takeWhile (\<lambda>c. c \<noteq> CHR '':'') url) else None)"

text \<open>
  The first two steps of a cleanup run in the sense of the specification, as state
  transformers: the delete of the records whose expiry is before \<open>now\<close>, and the sweep of
  the cache entries whose expiry is before \<open>now\<close>.
\<close>

definition deleteExpiredStep :: "Time \<Rightarrow> server \<Rightarrow> server" where
  "deleteExpiredStep now st = st\<lparr>col := filter (\<lambda>u. \<not> ExpiresAt u < now) (col st)\<rparr>"

definition cacheSweepStep :: "Time \<Rightarrow> server \<Rightarrow> server" where
  "cacheSweepStep now st =
     st\<lparr>cache := fmfilter (\<lambda>code. \<not> (case fmlookup (cache st) code of
                                        Some item \<Rightarrow> After now (ItemExpiresAt item)
                                      | None \<Rightarrow> False))
                          (cache st)\<rparr>"

section \<open>Example data\<close>

definition rnd0 :: "nat \<Rightarrow> nat" where
  "rnd0 i = (if i < 6 then 0 else (i - 6) * 11)"

definition exDoc :: URLData where
  "exDoc = \<lparr>Original = ''https://example.com/'', ShortCode = ''alwHS3'',
            CreatedAt = 63900000000000000000, ExpiresAt = 63931536000000000000,
            CreatorIP = ''203.0.113.7'', CreatorSubnet = ''203.0.113.0/24''\<rparr>"

definition exItem :: CacheItem where
  "exItem = \<lparr>OriginalURL = ''https://example.com/'', ItemExpiresAt = 63931536000000000000\<rparr>"

definition exServer :: server where
  "exServer = \<lparr>col = [exDoc], cache = fmupd ''alwHS3'' exItem fmempty,
               rateLimitMap = [''203.0.113.0/24'' \<mapsto>
                 \<lparr>Count = 1, FirstSeen = 63900000000000000000, Cooldown = 0\<rparr>]\<rparr>"

definition emptyServer :: server where
  "emptyServer = \<lparr>col = [], cache = fmempty, rateLimitMap = Map.empty\<rparr>"

definition exEnv :: shortenEnv where
  "exEnv = \<lparr>tCheck = 63900003600000000000, tDenied = 63900003600000000000,
            tCreate = 63900003600000000000, tCommit = 63900003600000000000,
            tReply = 63900003600000000000, countDocumentsFails = False,
            insertOneFails = False, randInts = rnd0\<rparr>"

definition exRequest :: "string \<Rightarrow> request" where
  "exRequest url = \<lparr>ClientIP = ''203.0.113.200'', Body = Some url, Host = ''localhost:5000''\<rparr>"

text \<open>
  Ten creations, one per second, each committed a millisecond after its check; the clock
  starts at 63900000001 seconds after the zero instant.
\<close>

definition evs10 :: "(Time \<times> Time) list" where
  "evs10 = map (\<lambda>k. (63900000000000000000 + k * Second,
                       63900000000000000000 + k * Second + 1000000))
               [1, 2, 3, 4, 5, 6, 7, 8, 9, 10]"

text \<open>
  A table in which the subnet's window was opened half a second before the first of these
  creations, by a request that passed the check and was then rejected; and what follows
  the ten creations: an attempt, a sweep, traffic of another subnet, and an attempt half a
  second before the window is 24 hours old, while the store cannot be reached.
\<close>

definition openMap :: rateLimitMap where
  "openMap = [''203.0.113.0/24'' \<mapsto>
                \<lparr>Count = 0, FirstSeen = 63900000000500000000, Cooldown = 0\<rparr>]"

definition later10 :: "event list" where
  "later10 = [Attempt 63900000011000000000 False [],
              Sweep 63900003600000000000,
              OtherCheck ''198.51.100.0/24'' 63900003700000000000 False [],
              OtherCommit ''198.51.100.0/24'' 63900003700001000000,
              Attempt 63900086400000000000 True []]"

section \<open>Rate limiter: properties\<close>

lemma cooldown_pos: "0 < cooldownHours * Hour"
  by (simp add: cooldownHours_def Hour_def Minute_def Second_def)

lemma countsNonneg_empty: "countsNonneg Map.empty"
  by (simp add: countsNonneg_def)

lemma countsNonneg_check:
  assumes "countsNonneg m"
  shows "countsNonneg (snd (checkRateLimit s now cf docs m))"
proof (cases "m s")
  case None
  with assms show ?thesis
    by (auto simp: countsNonneg_def checkRateLimit_def Let_def CountDocuments_def
        split: if_splits)
next
  case (Some i)
  with assms have "0 \<le> Count i" by (simp add: countsNonneg_def)
  with assms Some show ?thesis
    unfolding countsNonneg_def checkRateLimit_def Let_def
    by (simp split: if_splits)
qed

lemma countsNonneg_increment:
  assumes "countsNonneg m"
  shows "countsNonneg (incrementRateLimit s now m)"
proof (cases "m s")
  case None
  with assms show ?thesis by (simp add: incrementRateLimit_def)
next
  case (Some i)
  with assms have "0 \<le> Count i" by (simp add: countsNonneg_def)
  with assms Some show ?thesis
    unfolding countsNonneg_def incrementRateLimit_def Let_def
    by (simp split: if_splits)
qed

lemma countsNonneg_cleanup:
  assumes "countsNonneg m"
  shows "countsNonneg (cleanupRateLimitMap now m)"
  using assms
  by (auto simp: countsNonneg_def cleanupRateLimitMap_def split: option.splits if_splits)

lemma commit_entry:
  assumes "m s = Some i"
  shows "\<exists>i'. incrementRateLimit s t m s = Some i' \<and> Count i' = Count i + 1
           \<and> FirstSeen i' = FirstSeen i
           \<and> (maxURLsPerSubnet \<le> Count i' \<longrightarrow> Cooldown i' = Add t (cooldownHours * Hour))"
  using assms by (simp add: incrementRateLimit_def Let_def)

lemma check_in_window_allowed:
  assumes "m s = Some i" "Sub now (FirstSeen i) < 24 * Hour"
    and "checkRateLimit s now cf docs m = ((True, oi, e), m1)"
  shows "\<exists>i'. m1 s = Some i' \<and> Count i' = Count i \<and> FirstSeen i' = FirstSeen i"
proof -
  have nr: "\<not> (24 * Hour \<le> Sub now (FirstSeen i))"
    using assms(2) by simp
  show ?thesis
    using assms(3) unfolding checkRateLimit_def Let_def
    by (simp add: assms(1) nr split: if_splits) auto
qed

lemma denied_in_window:
  assumes "m s = Some i" "Sub now (FirstSeen i) < 24 * Hour" "Count i \<ge> maxURLsPerSubnet"
  shows "\<exists>i' m1. checkRateLimit s now cf docs m = ((False, Some i', None), m1)
           \<and> m1 s = Some i' \<and> FirstSeen i' = FirstSeen i \<and> Count i' = Count i"
  unfolding checkRateLimit_def Let_def
  using assms by simp

lemma check_after_window:
  assumes "m s = Some i" "Sub now (FirstSeen i) \<ge> 24 * Hour"
  shows "checkRateLimit s now cf docs m =
     ((True, Some (i\<lparr>Count := 0, FirstSeen := now, Cooldown := 0\<rparr>), None),
      m(s \<mapsto> i\<lparr>Count := 0, FirstSeen := now, Cooldown := 0\<rparr>))"
  unfolding checkRateLimit_def Let_def
  using assms by (simp add: IsZero_def maxURLsPerSubnet_def)

lemma first_check_window:
  assumes "countsNonneg m"
    and "checkRateLimit s t False docs m = ((True, oi, e), m1)"
  shows "\<exists>i. m1 s = Some i \<and> FirstSeen i = windowStart m s t \<and> 0 \<le> Count i"
proof (cases "m s")
  case None
  with assms(2) show ?thesis
    by (auto simp: checkRateLimit_def Let_def CountDocuments_def windowStart_def split: if_splits)
next
  case (Some i0)
  from assms(1) Some have c0: "0 \<le> Count i0" by (simp add: countsNonneg_def)
  show ?thesis
  proof (cases "24 * Hour \<le> Sub t (FirstSeen i0)")
    case True
    from check_after_window[where m=m and s=s and cf=False and docs=docs, OF Some True] assms(2)
    show ?thesis using Some True by (auto simp: windowStart_def)
  next
    case False
    then have lt: "Sub t (FirstSeen i0) < 24 * Hour" by simp
    from check_in_window_allowed[where m=m and s=s, OF Some lt assms(2)] c0
    show ?thesis using Some False by (auto simp: windowStart_def)
  qed
qed

lemma creations_window:
  assumes "creations s docs evs m = Some m'"
    and "m s = Some i"
    and "\<forall>(tc, ti) \<in> set evs. Sub tc (FirstSeen i) < 24 * Hour"
  shows "\<exists>i'. m' s = Some i' \<and> FirstSeen i' = FirstSeen i
           \<and> Count i' = Count i + int (length evs)
           \<and> (evs \<noteq> [] \<longrightarrow> maxURLsPerSubnet \<le> Count i' \<longrightarrow>
                Cooldown i' = Add (snd (last evs)) (cooldownHours * Hour))"
  using assms
proof (induction evs arbitrary: m i)
  case Nil
  then show ?case by simp
next
  case (Cons ev evs)
  obtain tc ti where ev: "ev = (tc, ti)" by (cases ev)
  from Cons.prems(1) obtain oi e m1 where
    chk: "checkRateLimit s tc False docs m = ((True, oi, e), m1)"
    and rest: "creations s docs evs (incrementRateLimit s ti m1) = Some m'"
    by (auto simp: ev split: prod.splits bool.splits)
  from Cons.prems(3) have win: "Sub tc (FirstSeen i) < 24 * Hour"
    by (simp add: ev)
  from check_in_window_allowed[where m=m and s=s, OF Cons.prems(2) win chk] obtain i1 where
    i1: "m1 s = Some i1" "Count i1 = Count i" "FirstSeen i1 = FirstSeen i" by blast
  from commit_entry[where m=m1 and s=s and t=ti, OF i1(1)] obtain i2 where
    i2: "incrementRateLimit s ti m1 s = Some i2" "Count i2 = Count i1 + 1"
      "FirstSeen i2 = FirstSeen i1"
      "maxURLsPerSubnet \<le> Count i2 \<longrightarrow> Cooldown i2 = Add ti (cooldownHours * Hour)"
    by blast
  have w: "\<forall>(tc, ti) \<in> set evs. Sub tc (FirstSeen i2) < 24 * Hour"
    using Cons.prems(3) i2(3) i1(3) by simp
  from Cons.IH[where m="incrementRateLimit s ti m1" and i=i2, OF rest i2(1) w] obtain i' where
    i': "m' s = Some i'" "FirstSeen i' = FirstSeen i2" "Count i' = Count i2 + int (length evs)"
      "evs \<noteq> [] \<longrightarrow> maxURLsPerSubnet \<le> Count i' \<longrightarrow>
         Cooldown i' = Add (snd (last evs)) (cooldownHours * Hour)"
    by blast
  show ?case
  proof (cases "evs = []")
    case True
    with rest i2(1) have "i' = i2" using i'(1) by simp
    with i' i1 i2 True show ?thesis by (simp add: ev)
  next
    case False
    with i' i1 i2 show ?thesis by simp
  qed
qed

lemma others_keep_entry:
  assumes "other \<noteq> s"
  shows "snd (checkRateLimit other t cf docs m) s = m s"
    and "incrementRateLimit other t m s = m s"
  using assms
  by (auto simp: checkRateLimit_def incrementRateLimit_def Let_def
      split: option.splits sum.splits if_splits)

lemma sweep_keeps_entry:
  assumes "m s = Some i" "Sub t (FirstSeen i) < 24 * Hour"
  shows "cleanupRateLimitMap t m s = Some i"
  using assms by (simp add: cleanupRateLimitMap_def)

lemma laterAttempts_denied:
  assumes "m s = Some i" "maxURLsPerSubnet \<le> Count i"
    and "\<forall>e \<in> set es. inWindow s (FirstSeen i) e"
  shows "\<forall>res \<in> set (laterAttempts s es m).
           \<exists>info. res = (False, Some info, None) \<and> FirstSeen info = FirstSeen i
             \<and> Count info = Count i"
  using assms
proof (induction es arbitrary: m i)
  case Nil
  then show ?case by simp
next
  case (Cons e es)
  from Cons.prems(3) have e: "inWindow s (FirstSeen i) e"
    and es: "\<forall>e \<in> set es. inWindow s (FirstSeen i) e" by simp_all
  show ?case
  proof (cases e)
    case (Attempt t cf docs)
    with e have "Sub t (FirstSeen i) < 24 * Hour" by simp
    from denied_in_window[where m=m and s=s and cf=cf and docs=docs, OF Cons.prems(1) this Cons.prems(2)]
    obtain i' m1 where
      r: "checkRateLimit s t cf docs m = ((False, Some i', None), m1)"
      and m1: "m1 s = Some i'" and f: "FirstSeen i' = FirstSeen i" and c: "Count i' = Count i"
      by blast
    have "\<forall>res \<in> set (laterAttempts s es m1).
           \<exists>info. res = (False, Some info, None) \<and> FirstSeen info = FirstSeen i'
             \<and> Count info = Count i'"
      by (rule Cons.IH[where m=m1 and i=i', OF m1]) (use Cons.prems(2) c f es in simp_all)
    with r f c show ?thesis by (simp add: Attempt)
  next
    case (Sweep t)
    with e have "Sub t (FirstSeen i) < 24 * Hour" by simp
    from sweep_keeps_entry[where m=m and s=s, OF Cons.prems(1) this]
    have "cleanupRateLimitMap t m s = Some i" .
    from Cons.IH[where m="cleanupRateLimitMap t m" and i=i, OF this Cons.prems(2) es]
    show ?thesis by (simp add: Sweep)
  next
    case (OtherCheck other t cf docs)
    with e have "other \<noteq> s" by simp
    from others_keep_entry(1)[OF this, of t cf docs m] Cons.prems(1)
    have "snd (checkRateLimit other t cf docs m) s = Some i" by simp
    from Cons.IH[where m="snd (checkRateLimit other t cf docs m)" and i=i,
        OF this Cons.prems(2) es]
    show ?thesis by (simp add: OtherCheck)
  next
    case (OtherCommit other t)
    with e have "other \<noteq> s" by simp
    from others_keep_entry(2)[OF this, of t m] Cons.prems(1)
    have "incrementRateLimit other t m s = Some i" by simp
    from Cons.IH[where m="incrementRateLimit other t m" and i=i, OF this Cons.prems(2) es]
    show ?thesis by (simp add: OtherCommit)
  qed
qed

lemma run10:
  "creations ''203.0.113.0/24'' [] evs10 Map.empty
     = Some [''203.0.113.0/24'' \<mapsto>
          \<lparr>Count = 10, FirstSeen = 63900000001000000000, Cooldown = 63900086410001000000\<rparr>]"
  by (simp add: evs10_def checkRateLimit_def incrementRateLimit_def Let_def CountDocuments_def
      Sub_def Add_def IsZero_def Before_def After_def maxURLsPerSubnet_def cooldownHours_def
      Hour_def Minute_def Second_def maxDuration_def minDuration_def)

text \<open>
  Claim C1, as amended. Take a run of exactly \<open>maxURLsPerSubnet\<close> (10) successful creations
  of one subnet within one 24-hour window: every check of the run falls less than 24 hours
  after the start of the window of the first one, and each creation is committed by
  \<open>incrementRateLimit\<close>. Then the tenth commit has set the cooldown, 24 hours after that
  commit, and every later creation attempt of the subnet made less than 24 hours after the
  start of the window is denied by \<open>checkRateLimit\<close>, without error, whatever sweeps and
  traffic of other subnets come in between.
\<close>

theorem rate_limit_denied_within_window:
  assumes run: "creations s docs evs m = Some m'"
    and len: "int (length evs) = maxURLsPerSubnet"
    and nonneg: "countsNonneg m"
    and win: "\<forall>(tc, ti) \<in> set evs. Sub tc (windowStart m s (fst (hd evs))) < 24 * Hour"
    and later: "\<forall>e \<in> set es. inWindow s (windowStart m s (fst (hd evs))) e"
  shows "(\<exists>i'. m' s = Some i' \<and> FirstSeen i' = windowStart m s (fst (hd evs))
            \<and> maxURLsPerSubnet \<le> Count i'
            \<and> Cooldown i' = Add (snd (last evs)) (cooldownHours * Hour))
       \<and> (\<forall>res \<in> set (laterAttempts s es m').
            \<exists>info. res = (False, Some info, None)
              \<and> FirstSeen info = windowStart m s (fst (hd evs))
              \<and> maxURLsPerSubnet \<le> Count info)"
proof -
  from len obtain ev rest where evs: "evs = ev # rest"
    by (cases evs) (auto simp: maxURLsPerSubnet_def)
  obtain t1 u1 where ev: "ev = (t1, u1)" by (cases ev)
  define W where "W = windowStart m s t1"
  have hd: "windowStart m s (fst (hd evs)) = W" by (simp add: evs ev W_def)
  from run obtain oi e m1 where
    chk: "checkRateLimit s t1 False docs m = ((True, oi, e), m1)"
    and rest: "creations s docs rest (incrementRateLimit s u1 m1) = Some m'"
    by (auto simp: evs ev split: prod.splits bool.splits)
  from first_check_window[where m=m and s=s, OF nonneg chk] obtain i1 where
    i1: "m1 s = Some i1" "FirstSeen i1 = W" "0 \<le> Count i1" by (auto simp: W_def)
  from commit_entry[where m=m1 and s=s and t=u1, OF i1(1)] obtain i2 where
    i2: "incrementRateLimit s u1 m1 s = Some i2" "Count i2 = Count i1 + 1"
      "FirstSeen i2 = FirstSeen i1"
      "maxURLsPerSubnet \<le> Count i2 \<longrightarrow> Cooldown i2 = Add u1 (cooldownHours * Hour)"
    by blast
  have "\<forall>(tc, ti) \<in> set rest. Sub tc (FirstSeen i2) < 24 * Hour"
    using win by (simp add: W_def i2(3) i1(2) evs ev)
  from creations_window[where m="incrementRateLimit s u1 m1" and s=s and i=i2,
      OF rest i2(1) this]
  obtain i' where
    i': "m' s = Some i'" "FirstSeen i' = FirstSeen i2" "Count i' = Count i2 + int (length rest)"
      "rest \<noteq> [] \<longrightarrow> maxURLsPerSubnet \<le> Count i' \<longrightarrow>
         Cooldown i' = Add (snd (last rest)) (cooldownHours * Hour)"
    by blast
  have F: "FirstSeen i' = W" using i' i2 i1 by simp
  have C: "maxURLsPerSubnet \<le> Count i'" using i' i2 i1 len by (simp add: evs)
  have ne: "rest \<noteq> []" using len by (auto simp: evs maxURLsPerSubnet_def)
  have L: "Cooldown i' = Add (snd (last evs)) (cooldownHours * Hour)"
    using i'(4) ne C by (simp add: evs)
  have lat: "\<forall>e \<in> set es. inWindow s (FirstSeen i') e" using later by (simp add: hd F)
  from laterAttempts_denied[where m=m' and s=s and i=i', OF i'(1) C lat] have
    "\<forall>res \<in> set (laterAttempts s es m').
       \<exists>info. res = (False, Some info, None) \<and> FirstSeen info = W
         \<and> maxURLsPerSubnet \<le> Count info"
    using F C by fastforce
  with i'(1) F C L show ?thesis by (simp add: hd)
qed

lemma run10_open:
  "creations ''203.0.113.0/24'' [] evs10 openMap
     = Some [''203.0.113.0/24'' \<mapsto>
          \<lparr>Count = 10, FirstSeen = 63900000000500000000, Cooldown = 63900086410001000000\<rparr>]"
  by (simp add: evs10_def openMap_def checkRateLimit_def incrementRateLimit_def Let_def
      Sub_def Add_def IsZero_def Before_def After_def maxURLsPerSubnet_def cooldownHours_def
      Hour_def Minute_def Second_def maxDuration_def minDuration_def)

text \<open>
  The run \<open>evs10\<close> in the window that a rejected request had opened, followed by the events
  \<open>later10\<close>: both later attempts are denied, the second one half a second before the
  window is 24 hours old.
\<close>

theorem rate_limit_denied_within_window_witness:
  "creations ''203.0.113.0/24'' [] evs10 openMap
     = Some [''203.0.113.0/24'' \<mapsto>
          \<lparr>Count = 10, FirstSeen = 63900000000500000000, Cooldown = 63900086410001000000\<rparr>]
   \<and> int (length evs10) = maxURLsPerSubnet
   \<and> countsNonneg openMap
   \<and> windowStart openMap ''203.0.113.0/24'' (fst (hd evs10)) = 63900000000500000000
   \<and> list_all (inWindow ''203.0.113.0/24'' 63900000000500000000) later10
   \<and> length (laterAttempts ''203.0.113.0/24'' later10
        [''203.0.113.0/24'' \<mapsto>
          \<lparr>Count = 10, FirstSeen = 63900000000500000000, Cooldown = 63900086410001000000\<rparr>])
      = 2
   \<and> list_all (\<lambda>res. fst res = False \<and> snd (snd res) = None)
        (laterAttempts ''203.0.113.0/24'' later10
          [''203.0.113.0/24'' \<mapsto>
            \<lparr>Count = 10, FirstSeen = 63900000000500000000, Cooldown = 63900086410001000000\<rparr>])"
proof -
  have len: "int (length evs10) = maxURLsPerSubnet"
    by (simp add: evs10_def maxURLsPerSubnet_def)
  have nonneg: "countsNonneg openMap"
    by (simp add: countsNonneg_def openMap_def)
  have w: "windowStart openMap ''203.0.113.0/24'' (fst (hd evs10)) = 63900000000500000000"
    by (simp add: windowStart_def openMap_def evs10_def Sub_def Let_def Hour_def Minute_def
        Second_def maxDuration_def minDuration_def)
  have win: "\<forall>(tc, ti) \<in> set evs10.
      Sub tc (windowStart openMap ''203.0.113.0/24'' (fst (hd evs10))) < 24 * Hour"
    unfolding w
    by (simp add: evs10_def Sub_def Let_def Hour_def Minute_def Second_def maxDuration_def
        minDuration_def)
  have lat: "list_all (inWindow ''203.0.113.0/24'' 63900000000500000000) later10"
    by (simp add: later10_def Sub_def Let_def Hour_def Minute_def Second_def maxDuration_def
        minDuration_def)
  then have later: "\<forall>e \<in> set later10.
      inWindow ''203.0.113.0/24'' (windowStart openMap ''203.0.113.0/24'' (fst (hd evs10))) e"
    unfolding w by (simp add: list_all_iff)
  have n: "length (laterAttempts ''203.0.113.0/24'' later10
        [''203.0.113.0/24'' \<mapsto>
          \<lparr>Count = 10, FirstSeen = 63900000000500000000, Cooldown = 63900086410001000000\<rparr>])
      = 2"
    by (simp add: later10_def split: prod.splits)
  from rate_limit_denied_within_window[OF run10_open len nonneg win later]
  have "\<forall>res \<in> set (laterAttempts ''203.0.113.0/24'' later10
          [''203.0.113.0/24'' \<mapsto>
            \<lparr>Count = 10, FirstSeen = 63900000000500000000, Cooldown = 63900086410001000000\<rparr>]).
          fst res = False \<and> snd (snd res) = None"
    by fastforce
  then have "list_all (\<lambda>res. fst res = False \<and> snd (snd res) = None)
        (laterAttempts ''203.0.113.0/24'' later10
          [''203.0.113.0/24'' \<mapsto>
            \<lparr>Count = 10, FirstSeen = 63900000000500000000, Cooldown = 63900086410001000000\<rparr>])"
    by (simp only: list_all_iff)
  with run10_open len nonneg w lat n show ?thesis by simp
qed

text \<open>
  Claim C1 as stated fails. After the run \<open>evs10\<close> the cooldown ends 24 hours after the
  tenth commit, but the window started at the first check: a check exactly 24 hours after
  the first one comes before the end of the cooldown and is allowed.
\<close>

theorem rate_limit_cooldown_counterexample:
  "creations ''203.0.113.0/24'' [] evs10 Map.empty
     = Some [''203.0.113.0/24'' \<mapsto>
          \<lparr>Count = 10, FirstSeen = 63900000001000000000, Cooldown = 63900086410001000000\<rparr>]
   \<and> Before 63900086401000000000 63900086410001000000
   \<and> fst (fst (checkRateLimit ''203.0.113.0/24'' 63900086401000000000 False []
        [''203.0.113.0/24'' \<mapsto>
          \<lparr>Count = 10, FirstSeen = 63900000001000000000, Cooldown = 63900086410001000000\<rparr>]))
     = True"
  using run10
  by (simp add: checkRateLimit_def Let_def Before_def After_def IsZero_def Sub_def
      maxURLsPerSubnet_def Hour_def Minute_def Second_def maxDuration_def minDuration_def)

lemma denial_cooldown:
  assumes "checkRateLimit subnet now countFails docs m = ((False, oinfo, None), m')"
    and "0 < now"
  shows "\<exists>info. oinfo = Some info \<and> m' subnet = Some info
           \<and> \<not> IsZero (Cooldown info) \<and> Before now (Cooldown info)"
proof (cases "m subnet")
  case None
  with assms cooldown_pos show ?thesis
    by (auto simp: checkRateLimit_def Let_def IsZero_def Before_def Add_def CountDocuments_def
        split: if_splits)
next
  case (Some i)
  from assms(1) have "oinfo \<noteq> None \<and> m' subnet = oinfo
      \<and> \<not> IsZero (Cooldown (the oinfo)) \<and> Before now (Cooldown (the oinfo))"
    unfolding checkRateLimit_def Let_def
    using assms(2) cooldown_pos
    by (simp add: Some IsZero_def Before_def Add_def split: if_splits) auto
  then show ?thesis by auto
qed

text \<open>
  Claim C10. When \<open>checkRateLimit\<close> denies a request without error, the subnet state it
  returns (the entry now in the table) has a cooldown that is not the zero instant and
  lies strictly after the time of the check, so the 429 response has a cooldown to report.
  The clock of the server reads a time after the zero instant.
\<close>

theorem checkRateLimit_denial_has_cooldown:
  assumes "checkRateLimit subnet now countFails docs m = ((False, oinfo, None), m')"
    and "0 < now"
  shows "\<exists>info. oinfo = Some info \<and> m' subnet = Some info
           \<and> \<not> IsZero (Cooldown info) \<and> Before now (Cooldown info)"
  using assms by (rule denial_cooldown)

text \<open>
  A denial through the count: the entry holds ten creations and no cooldown, and the check
  sets the cooldown 24 hours ahead.
\<close>

theorem checkRateLimit_denial_has_cooldown_witness:
  "checkRateLimit ''203.0.113.0/24'' 63900000011000000000 False []
      [''203.0.113.0/24'' \<mapsto> \<lparr>Count = 10, FirstSeen = 63900000001000000000, Cooldown = 0\<rparr>]
     = ((False,
         Some \<lparr>Count = 10, FirstSeen = 63900000001000000000, Cooldown = 63900086411000000000\<rparr>,
         None),
        [''203.0.113.0/24'' \<mapsto>
           \<lparr>Count = 10, FirstSeen = 63900000001000000000, Cooldown = 63900086411000000000\<rparr>])
   \<and> (0::int) < 63900000011000000000
   \<and> \<not> IsZero 63900086411000000000
   \<and> Before 63900000011000000000 63900086411000000000"
proof -
  have eq: "checkRateLimit ''203.0.113.0/24'' 63900000011000000000 False []
      [''203.0.113.0/24'' \<mapsto> \<lparr>Count = 10, FirstSeen = 63900000001000000000, Cooldown = 0\<rparr>]
     = ((False,
         Some \<lparr>Count = 10, FirstSeen = 63900000001000000000, Cooldown = 63900086411000000000\<rparr>,
         None),
        [''203.0.113.0/24'' \<mapsto>
           \<lparr>Count = 10, FirstSeen = 63900000001000000000, Cooldown = 63900086411000000000\<rparr>])"
    by (simp add: checkRateLimit_def Let_def IsZero_def Before_def After_def Add_def Sub_def
        maxURLsPerSubnet_def cooldownHours_def Hour_def Minute_def Second_def maxDuration_def
        minDuration_def)
  have pos: "(0::int) < 63900000011000000000" by simp
  from checkRateLimit_denial_has_cooldown[OF eq pos] eq pos show ?thesis by simp
qed

section \<open>Code generator: properties\<close>

lemma containsLetter_iff: "containsLetter s = (\<exists>c \<in> set s. isLetter c)"
  by (induction s) auto

lemma containsDigit_iff: "containsDigit s = (\<exists>c \<in> set s. isDigit c)"
  by (induction s) auto

lemma allChars_alnum: "\<forall>c \<in> set allChars. isLetter c \<or> isDigit c"
  by (simp add: allChars_def letters_def digits_def isLetter_def isDigit_def)

lemma length_allChars: "length allChars = 62"
  by (simp add: allChars_def letters_def digits_def)

lemma genCode_loop_result:
  assumes ret: "genCode_loop n rnd pos = Some code"
  shows "length code = n \<and> (\<forall>c \<in> set code. isLetter c \<or> isDigit c)
     \<and> containsLetter code \<and> containsDigit code"
proof (rule genCode_loop.raw_induct[where P = "\<lambda>n rnd pos code.
      length code = n \<and> (\<forall>c \<in> set code. isLetter c \<or> isDigit c)
       \<and> containsLetter code \<and> containsDigit code", OF _ ret])
  fix f :: "nat \<Rightarrow> (nat \<Rightarrow> nat) \<Rightarrow> nat \<Rightarrow> string option"
  fix n rnd pos code
  assume IH: "\<And>n rnd pos y. f n rnd pos = Some y \<Longrightarrow>
      length y = n \<and> (\<forall>c \<in> set y. isLetter c \<or> isDigit c)
       \<and> containsLetter y \<and> containsDigit y"
  assume body: "(let code = map (\<lambda>i. allChars ! (rnd (pos + i) mod length allChars)) [0..<n]
      in if containsLetter code \<and> containsDigit code then Some code
         else f n rnd (pos + n)) = Some code"
  let ?c = "map (\<lambda>i. allChars ! (rnd (pos + i) mod length allChars)) [0..<n]"
  show "length code = n \<and> (\<forall>c \<in> set code. isLetter c \<or> isDigit c)
       \<and> containsLetter code \<and> containsDigit code"
  proof (cases "containsLetter ?c \<and> containsDigit ?c")
    case True
    with body have eq: "code = ?c" by (simp add: Let_def)
    have "\<forall>c \<in> set ?c. isLetter c \<or> isDigit c"
      using allChars_alnum by (auto simp: length_allChars)
    with True eq show ?thesis by simp
  next
    case False
    with body have "f n rnd (pos + n) = Some code" by (simp add: Let_def)
    from IH[OF this] show ?thesis .
  qed
qed

text \<open>
  Claim C7. Whenever \<open>genCode n\<close> returns a code, the code has exactly \<open>n\<close> characters, each
  of them a letter \<open>a-z\<close>, \<open>A-Z\<close> or a digit \<open>0-9\<close>, with at least one letter and at least
  one digit; so a value returned by \<open>genCode 6\<close> has six characters.
\<close>

theorem genCode_returns_valid_code:
  assumes "genCode n rnd = Some (Inr code)"
  shows "int (length code) = n
     \<and> (\<forall>c \<in> set code. isLetter c \<or> isDigit c)
     \<and> (\<exists>c \<in> set code. isLetter c) \<and> (\<exists>c \<in> set code. isDigit c)
     \<and> (n = 6 \<longrightarrow> length code = 6)"
proof -
  from assms have n: "0 \<le> n" and loop: "genCode_loop (nat n) rnd 0 = Some code"
    by (auto simp: genCode_def split: if_splits)
  from genCode_loop_result[OF loop] n show ?thesis
    by (auto simp: containsLetter_iff containsDigit_iff)
qed

lemma upt6: "[0..<6] = [0, 1, 2, 3, 4, 5]"
  by code_simp

lemma rnd0_first: "map (\<lambda>i. allChars ! (rnd0 (0 + i) mod length allChars)) [0..<6] = ''aaaaaa''"
  by (simp add: rnd0_def allChars_def letters_def digits_def upt6)

lemma rnd0_second: "map (\<lambda>i. allChars ! (rnd0 (6 + i) mod length allChars)) [0..<6] = ''alwHS3''"
  by (simp add: rnd0_def allChars_def letters_def digits_def upt6)

lemma genCode_rnd0: "genCode 6 rnd0 = Some (Inr ''alwHS3'')"
  apply (simp add: genCode_def)
  apply (subst genCode_loop.simps)
  apply (simp only: rnd0_first Let_def)
  apply (simp add: isLetter_def isDigit_def)
  apply (subst genCode_loop.simps)
  apply (simp only: rnd0_second Let_def)
  apply (simp add: isLetter_def isDigit_def)
  done

text \<open>
  With the source \<open>rnd0\<close> the first draw is \<open>aaaaaa\<close>, which has no digit and is rejected;
  the second draw is returned.
\<close>

theorem genCode_returns_valid_code_witness:
  "genCode 6 rnd0 = Some (Inr ''alwHS3'')
   \<and> int (length ''alwHS3'') = 6
   \<and> (\<exists>c \<in> set ''alwHS3''. isLetter c) \<and> (\<exists>c \<in> set ''alwHS3''. isDigit c)"
  using genCode_returns_valid_code[OF genCode_rnd0] genCode_rnd0 by simp

section \<open>Client subnet: properties\<close>

lemma take3_nth:
  assumes "take 3 v = take 3 v'" "length v = 4" "length v' = 4"
  shows "v ! 0 = v' ! 0 \<and> v ! 1 = v' ! 1 \<and> v ! 2 = v' ! 2"
proof -
  have "\<And>i. i < 3 \<Longrightarrow> v ! i = v' ! i"
  proof -
    fix i :: nat assume i: "i < 3"
    have "v ! i = take 3 v ! i" using i by simp
    also have "\<dots> = take 3 v' ! i" using assms(1) by simp
    also have "\<dots> = v' ! i" using i by simp
    finally show "v ! i = v' ! i" .
  qed
  then show ?thesis by simp
qed

lemma To4_length: "To4 ip = Some v \<Longrightarrow> length v = 4"
  by (auto simp: To4_def split: if_splits)

text \<open>
  Claim C6. \<open>getClientSubnet\<close> is a function of the raw address alone. An address that does
  not parse is its own key. An address that parses to an IPv4 address (\<open>To4\<close> gives its
  four octets) maps to the first three octets in decimal followed by \<open>.0/24\<close>, so two such
  addresses with the same first three octets have the same key. An address that parses to
  sixteen bytes that are not an IPv4 address maps to its first eight bytes, as four groups
  of four hexadecimal digits, followed by \<open>::/64\<close>.
\<close>

theorem getClientSubnet_classes:
  "(ParseIP s = None \<longrightarrow> getClientSubnet ParseIP s = s)
   \<and> (\<forall>ip v. ParseIP s = Some ip \<and> To4 ip = Some v \<longrightarrow>
         length v = 4
         \<and> getClientSubnet ParseIP s
             = decimal (unat (v ! 0)) @ ''.'' @ decimal (unat (v ! 1)) @ ''.''
                 @ decimal (unat (v ! 2)) @ ''.0/24'')
   \<and> (\<forall>ip. ParseIP s = Some ip \<and> To4 ip = None \<and> length ip = 16 \<longrightarrow>
         getClientSubnet ParseIP s
           = hex2 (ip ! 0) @ hex2 (ip ! 1) @ '':'' @ hex2 (ip ! 2) @ hex2 (ip ! 3) @ '':''
               @ hex2 (ip ! 4) @ hex2 (ip ! 5) @ '':'' @ hex2 (ip ! 6) @ hex2 (ip ! 7)
               @ ''::/64'')
   \<and> (\<forall>s' ip ip' v v'. ParseIP s = Some ip \<and> To4 ip = Some v
          \<and> ParseIP s' = Some ip' \<and> To4 ip' = Some v' \<and> take 3 v = take 3 v' \<longrightarrow>
         getClientSubnet ParseIP s = getClientSubnet ParseIP s')"
proof (intro conjI allI impI)
  assume "ParseIP s = None"
  then show "getClientSubnet ParseIP s = s" by (simp add: getClientSubnet_def)
next
  fix ip v assume "ParseIP s = Some ip \<and> To4 ip = Some v"
  then show "length v = 4" using To4_length by blast
next
  fix ip v assume "ParseIP s = Some ip \<and> To4 ip = Some v"
  then show "getClientSubnet ParseIP s
             = decimal (unat (v ! 0)) @ ''.'' @ decimal (unat (v ! 1)) @ ''.''
                 @ decimal (unat (v ! 2)) @ ''.0/24''"
    by (simp add: getClientSubnet_def)
next
  fix ip assume "ParseIP s = Some ip \<and> To4 ip = None \<and> length ip = 16"
  then show "getClientSubnet ParseIP s
           = hex2 (ip ! 0) @ hex2 (ip ! 1) @ '':'' @ hex2 (ip ! 2) @ hex2 (ip ! 3) @ '':''
               @ hex2 (ip ! 4) @ hex2 (ip ! 5) @ '':'' @ hex2 (ip ! 6) @ hex2 (ip ! 7)
               @ ''::/64''"
    by (simp add: getClientSubnet_def To16_def)
next
  fix s' ip ip' v v'
  assume h: "ParseIP s = Some ip \<and> To4 ip = Some v
          \<and> ParseIP s' = Some ip' \<and> To4 ip' = Some v' \<and> take 3 v = take 3 v'"
  then have "length v = 4" "length v' = 4" using To4_length by blast+
  with h have "v ! 0 = v' ! 0 \<and> v ! 1 = v' ! 1 \<and> v ! 2 = v' ! 2"
    using take3_nth by blast
  with h show "getClientSubnet ParseIP s = getClientSubnet ParseIP s'"
    by (simp add: getClientSubnet_def)
qed

lemma subnet_200: "getClientSubnet ParseIP0 ''203.0.113.200'' = ''203.0.113.0/24''"
  by (simp add: getClientSubnet_def ParseIP0_def To4_def isZeros_def decimal.simps digitChar_def)

theorem getClientSubnet_classes_witness:
  "getClientSubnet ParseIP0 ''not an address'' = ''not an address''
   \<and> getClientSubnet ParseIP0 ''203.0.113.7'' = ''203.0.113.0/24''
   \<and> getClientSubnet ParseIP0 ''203.0.113.7'' = getClientSubnet ParseIP0 ''203.0.113.200''
   \<and> getClientSubnet ParseIP0 ''2001:db8::1'' = ''2001:0db8:0000:0000::/64''"
proof -
  have p0: "ParseIP0 ''not an address'' = None" by (simp add: ParseIP0_def)
  have p1: "ParseIP0 ''203.0.113.7''
      = Some [0, 0, 0, 0, 0, 0, 0, 0, 0, 0, 0xff, 0xff, 203, 0, 113, 7]"
    by (simp add: ParseIP0_def)
  have p2: "ParseIP0 ''203.0.113.200''
      = Some [0, 0, 0, 0, 0, 0, 0, 0, 0, 0, 0xff, 0xff, 203, 0, 113, 200]"
    by (simp add: ParseIP0_def)
  have p3: "ParseIP0 ''2001:db8::1''
      = Some [0x20, 0x01, 0x0d, 0xb8, 0, 0, 0, 0, 0, 0, 0, 0, 0, 0, 0, 1]"
    by (simp add: ParseIP0_def)
  have t1: "To4 [0, 0, 0, 0, 0, 0, 0, 0, 0, 0, 0xff, 0xff, 203, 0, 113, 7] = Some [203, 0, 113, 7]"
    by (simp add: To4_def isZeros_def)
  have t2: "To4 [0, 0, 0, 0, 0, 0, 0, 0, 0, 0, 0xff, 0xff, 203, 0, 113, 200]
      = Some [203, 0, 113, 200]"
    by (simp add: To4_def isZeros_def)
  have t3: "To4 [0x20, 0x01, 0x0d, 0xb8, 0, 0, 0, 0, 0, 0, 0, 0, 0, 0, 0, 1] = None"
    by (simp add: To4_def isZeros_def)
  note th = getClientSubnet_classes[of ParseIP0]
  have a: "getClientSubnet ParseIP0 ''not an address'' = ''not an address''"
    using th[of "''not an address''"] p0 by simp
  have b: "getClientSubnet ParseIP0 ''203.0.113.7'' = ''203.0.113.0/24''"
    using th[of "''203.0.113.7''"] p1 t1 by (simp add: decimal.simps digitChar_def)
  note same = th[of "''203.0.113.7''", THEN conjunct2, THEN conjunct2, THEN conjunct2,
      rule_format]
  have c: "getClientSubnet ParseIP0 ''203.0.113.7'' = getClientSubnet ParseIP0 ''203.0.113.200''"
    using same[where s'="''203.0.113.200''" and v="[203, 0, 113, 7]" and v'="[203, 0, 113, 200]"]
      p1 t1 p2 t2 by simp
  have d: "getClientSubnet ParseIP0 ''2001:db8::1'' = ''2001:0db8:0000:0000::/64''"
    using th[of "''2001:db8::1''"] p3 t3 by (simp add: hex2_def hexDigit_def)
  from a b c d show ?thesis by simp
qed

section \<open>Duration formatting: properties\<close>

text \<open>The binary exponent: \<open>2 ^ ilog2 x \<le> x < 2 ^ (ilog2 x + 1)\<close> for a positive \<open>x\<close>.\<close>

lemma bitlen_pos: "0 < n \<Longrightarrow> 1 \<le> bitlen n"
  using bitlen_eq_zero_iff[of n] bitlen_nonneg[of n] by linarith


lemma ilog2_upper:
  assumes "0 < x"
  shows "x < 2 powi (ilog2 x + 1)"
proof (cases "1 \<le> x")
  case True
  let ?n = "\<lfloor>x\<rfloor>"
  have n: "0 < ?n" using True by linarith
  from bitlen_bounds[OF n] have "?n < (2::int) ^ nat (bitlen ?n)" by simp
  then have "x < of_int ((2::int) ^ nat (bitlen ?n))"
    by (simp only: floor_less_iff)
  then have "x < (2::rat) ^ nat (bitlen ?n)" by simp
  moreover have "0 \<le> bitlen ?n" by (rule bitlen_nonneg)
  ultimately show ?thesis using True by (simp add: ilog2_def power_int_def)
next
  case False
  let ?m = "\<lceil>1 / x\<rceil> - 1"
  have "1 < 1 / x" using False assms by simp
  then have m: "0 < ?m" by linarith
  from bitlen_bounds[OF m] have "(2::int) ^ nat (bitlen ?m - 1) \<le> ?m" by simp
  then have "(of_int ((2::int) ^ nat (bitlen ?m - 1)) :: rat) \<le> of_int ?m"
    by (simp only: of_int_le_iff)
  also have "\<dots> < 1 / x" by linarith
  finally have "(2::rat) ^ nat (bitlen ?m - 1) < 1 / x" by simp
  then have lt: "x < 1 / (2::rat) ^ nat (bitlen ?m - 1)"
    using assms by (simp add: field_simps)
  have b: "1 \<le> bitlen ?m" by (rule bitlen_pos[OF m])
  have "(2::rat) powi (- bitlen ?m + 1) = 1 / 2 ^ nat (bitlen ?m - 1)"
  proof -
    have "- bitlen ?m + 1 = - (bitlen ?m - 1)" by simp
    then have "(2::rat) powi (- bitlen ?m + 1) = 1 / (2 powi (bitlen ?m - 1))"
      by (simp only: power_int_minus_divide)
    also have "\<dots> = 1 / 2 ^ nat (bitlen ?m - 1)" using b by (simp add: power_int_def)
    finally show ?thesis .
  qed
  with lt show ?thesis using False by (simp add: ilog2_def)
qed







lemma fl64_zero [simp]: "fl64 0 = 0"
  by (simp add: fl64_def)













lemma p53: "(2::rat) ^ 53 = 9007199254740992"
  by simp










text \<open>
  In the days branch the two numbers come from the rounded \<open>float64\<close> hours: one
  nanosecond short of 4097 hours is rendered as 170 days 17 hours.
\<close>

lemma formatDuration_rounding_example:
  "formatDuration (4097 * Hour - 1) = ''170 days 17 hours''"
  by code_simp



section \<open>Creating a short link: properties\<close>

lemma shorten_ex_created:
  assumes "HasPrefix url ''http''"
  shows "\<exists>b. shortenHandler ParseIP0 exEnv (exRequest url) exServer =
    Some (Created b,
      \<lparr>col = [exDoc, \<lparr>Original = url, ShortCode = ''alwHS3'', CreatedAt = 63900003600000000000,
               ExpiresAt = 63931539600000000000, CreatorIP = ''203.0.113.200'',
               CreatorSubnet = ''203.0.113.0/24''\<rparr>],
       cache = fmupd ''alwHS3'' \<lparr>OriginalURL = url, ItemExpiresAt = 63931539600000000000\<rparr> fmempty,
       rateLimitMap = [''203.0.113.0/24'' \<mapsto>
                 \<lparr>Count = 2, FirstSeen = 63900000000000000000, Cooldown = 0\<rparr>]\<rparr>)"
  using assms
  by (simp add: shortenHandler_def exEnv_def exRequest_def exServer_def subnet_200 genCode_rnd0
      checkRateLimit_def incrementRateLimit_def Let_def InsertOne_def IsZero_def Before_def
      After_def Add_def Sub_def maxURLsPerSubnet_def cooldownHours_def expiryDays_def
      Hour_def Minute_def Second_def maxDuration_def minDuration_def)

lemma shorten_empty_created:
  assumes "HasPrefix url ''http''"
  shows "\<exists>b. shortenHandler ParseIP0 exEnv (exRequest url) emptyServer =
    Some (Created b,
      \<lparr>col = [\<lparr>Original = url, ShortCode = ''alwHS3'', CreatedAt = 63900003600000000000,
               ExpiresAt = 63931539600000000000, CreatorIP = ''203.0.113.200'',
               CreatorSubnet = ''203.0.113.0/24''\<rparr>],
       cache = fmupd ''alwHS3'' \<lparr>OriginalURL = url, ItemExpiresAt = 63931539600000000000\<rparr> fmempty,
       rateLimitMap = [''203.0.113.0/24'' \<mapsto>
                 \<lparr>Count = 1, FirstSeen = 63900003600000000000, Cooldown = 0\<rparr>]\<rparr>)"
  using assms
  by (simp add: shortenHandler_def exEnv_def exRequest_def emptyServer_def subnet_200 genCode_rnd0
      checkRateLimit_def incrementRateLimit_def Let_def InsertOne_def CountDocuments_def
      IsZero_def Before_def
      After_def Add_def Sub_def maxURLsPerSubnet_def cooldownHours_def expiryDays_def
      Hour_def Minute_def Second_def maxDuration_def minDuration_def)

text \<open>
  Claim C2 on the code. The handler tests \<open>strings.HasPrefix(body.URL, "http")\<close>, which
  is not a test of the scheme: the URL \<open>httpx://example.com\<close> has the scheme \<open>httpx\<close>,
  neither \<open>http\<close> nor \<open>https\<close>, yet the request is answered with status 200 and the link is
  stored and cached.
\<close>

theorem shorten_accepts_httpx:
  "spec_urlScheme ''httpx://example.com'' = Some ''httpx''
   \<and> map_option (\<lambda>(resp, st'). (status resp, map ShortCode (col st'),
                    map_option OriginalURL (fmlookup (cache st') ''alwHS3'')))
        (shortenHandler ParseIP0 exEnv (exRequest ''httpx://example.com'') emptyServer)
     = Some (Some 200, [''alwHS3''], Some ''httpx://example.com'')"
proof -
  have "HasPrefix ''httpx://example.com'' ''http''" by (simp add: HasPrefix_def)
  from shorten_empty_created[OF this] obtain b where
    "shortenHandler ParseIP0 exEnv (exRequest ''httpx://example.com'') emptyServer =
    Some (Created b,
      \<lparr>col = [\<lparr>Original = ''httpx://example.com'', ShortCode = ''alwHS3'', CreatedAt = 63900003600000000000,
               ExpiresAt = 63931539600000000000, CreatorIP = ''203.0.113.200'',
               CreatorSubnet = ''203.0.113.0/24''\<rparr>],
       cache = fmupd ''alwHS3'' \<lparr>OriginalURL = ''httpx://example.com'', ItemExpiresAt = 63931539600000000000\<rparr> fmempty,
       rateLimitMap = [''203.0.113.0/24'' \<mapsto>
                 \<lparr>Count = 1, FirstSeen = 63900003600000000000, Cooldown = 0\<rparr>]\<rparr>)" by blast
  then show ?thesis by (simp add: spec_urlScheme_def)
qed

text \<open>What the test does reject: a URL that does not begin with \<open>http\<close>.\<close>

lemma shorten_rejects_without_http_prefix:
  assumes "checkRateLimit (getClientSubnet ParseIP (ClientIP r)) (tCheck env) (countDocumentsFails env)
             (col st) (rateLimitMap st) = ((True, ri, None), m1)"
    and "Body r = Some url" and "\<not> HasPrefix url ''http''"
  shows "shortenHandler ParseIP env r st
           = Some (HttpError 400 ''invalid url'', st\<lparr>rateLimitMap := m1\<rparr>)"
  using assms by (simp add: shortenHandler_def Let_def)

text \<open>
  Claim C4, as amended. A create that succeeds inserts the generated code without looking
  it up anywhere: the code is the one \<open>genCode\<close> returned, whatever the store and the cache
  hold; the new document is appended to the collection, and the cache entry of the code is
  set to the new URL and expiry, replacing an entry that was there.
\<close>

theorem shorten_inserts_unchecked:
  assumes "shortenHandler ParseIP env r st = Some (Created b, st')"
  shows "genCode 6 (randInts env) = Some (Inr (short_code b))
     \<and> col st' = col st @ [\<lparr>Original = original_url b, ShortCode = short_code b,
            CreatedAt = created_at b, ExpiresAt = expires_at b, CreatorIP = ClientIP r,
            CreatorSubnet = getClientSubnet ParseIP (ClientIP r)\<rparr>]
     \<and> cache st' = fmupd (short_code b)
            \<lparr>OriginalURL = original_url b, ItemExpiresAt = expires_at b\<rparr> (cache st)"
  using assms
  by (auto simp: shortenHandler_def Let_def InsertOne_def
      split: prod.splits option.splits bool.splits sum.splits if_splits)

text \<open>A successful create on a server that already holds the generated code.\<close>

theorem shorten_inserts_unchecked_witness:
  "\<exists>b st'. shortenHandler ParseIP0 exEnv (exRequest ''https://example.org/'') exServer
               = Some (Created b, st')
     \<and> map ShortCode (col st') = [''alwHS3'', ''alwHS3'']
     \<and> map_option OriginalURL (fmlookup (cache st') ''alwHS3'') = Some ''https://example.org/''"
proof -
  have "HasPrefix ''https://example.org/'' ''http''" by (simp add: HasPrefix_def)
  from shorten_ex_created[OF this] obtain b st' where
    run: "shortenHandler ParseIP0 exEnv (exRequest ''https://example.org/'') exServer
               = Some (Created b, st')" by blast
  from shorten_inserts_unchecked[OF run] have
    "col st' = col exServer @ [\<lparr>Original = original_url b, ShortCode = short_code b,
            CreatedAt = created_at b, ExpiresAt = expires_at b,
            CreatorIP = ClientIP (exRequest ''https://example.org/''),
            CreatorSubnet = getClientSubnet ParseIP0 (ClientIP (exRequest ''https://example.org/''))\<rparr>]"
    and "cache st' = fmupd (short_code b)
            \<lparr>OriginalURL = original_url b, ItemExpiresAt = expires_at b\<rparr> (cache exServer)"
    and "genCode 6 (randInts exEnv) = Some (Inr (short_code b))" by simp_all
  moreover from this(3) have "short_code b = ''alwHS3''"
    by (simp add: exEnv_def genCode_rnd0)
  moreover have "original_url b = ''https://example.org/''"
    using run by (auto simp: shortenHandler_def Let_def exRequest_def
      split: prod.splits option.splits bool.splits sum.splits if_splits)
  ultimately have "map ShortCode (col st') = [''alwHS3'', ''alwHS3'']
     \<and> map_option OriginalURL (fmlookup (cache st') ''alwHS3'') = Some ''https://example.org/''"
    by (simp add: exServer_def exDoc_def)
  with run show ?thesis
    by (intro exI[of _ b] exI[of _ st']) simp
qed

text \<open>
  Claim C4 as stated fails: the code \<open>alwHS3\<close> is in the store and in the cache, the
  generator returns it again, and the create answers 200 with the code stored twice.
\<close>

theorem shorten_duplicate_counterexample:
  "''alwHS3'' \<in> ShortCode ` set (col exServer)
   \<and> fmlookup (cache exServer) ''alwHS3'' = Some exItem
   \<and> map_option (\<lambda>(resp, st'). (status resp, map ShortCode (col st'),
                    map_option OriginalURL (fmlookup (cache st') ''alwHS3'')))
        (shortenHandler ParseIP0 exEnv (exRequest ''https://example.org/'') exServer)
     = Some (Some 200, [''alwHS3'', ''alwHS3''], Some ''https://example.org/'')"
proof -
  have "HasPrefix ''https://example.org/'' ''http''" by (simp add: HasPrefix_def)
  from shorten_ex_created[OF this] obtain b where
    "shortenHandler ParseIP0 exEnv (exRequest ''https://example.org/'') exServer =
    Some (Created b,
      \<lparr>col = [exDoc, \<lparr>Original = ''https://example.org/'', ShortCode = ''alwHS3'', CreatedAt = 63900003600000000000,
               ExpiresAt = 63931539600000000000, CreatorIP = ''203.0.113.200'',
               CreatorSubnet = ''203.0.113.0/24''\<rparr>],
       cache = fmupd ''alwHS3'' \<lparr>OriginalURL = ''https://example.org/'', ItemExpiresAt = 63931539600000000000\<rparr> fmempty,
       rateLimitMap = [''203.0.113.0/24'' \<mapsto>
                 \<lparr>Count = 2, FirstSeen = 63900000000000000000, Cooldown = 0\<rparr>]\<rparr>)" by blast
  then show ?thesis by (simp add: exServer_def exDoc_def)
qed

text \<open>
  The 429 answer reports the cooldown of the state that \<open>checkRateLimit\<close> returned: an
  instant that is not zero and lies after the time of the check.
\<close>

lemma shorten_429_reports_cooldown:
  assumes "shortenHandler ParseIP env r st = Some (RateLimited b, st')"
    and "0 < tCheck env"
  shows "\<not> IsZero (cooldown_until b) \<and> Before (tCheck env) (cooldown_until b)
     \<and> cooldown_remaining b = formatDuration (Sub (cooldown_until b) (tDenied env))"
proof -
  from assms(1) obtain info m1 where
    chk: "checkRateLimit (getClientSubnet ParseIP (ClientIP r)) (tCheck env)
            (countDocumentsFails env) (col st) (rateLimitMap st) = ((False, Some info, None), m1)"
    and b: "cooldown_until b = Cooldown info"
      "cooldown_remaining b = formatDuration (Sub (Cooldown info) (tDenied env))"
    by (auto simp: shortenHandler_def Let_def
        split: prod.splits option.splits bool.splits sum.splits if_splits)
  from denial_cooldown[OF chk assms(2)] b show ?thesis by simp
qed

section \<open>Redirect and list: properties\<close>

lemma isAlphanumeric_nonempty: "isAlphanumeric code \<Longrightarrow> code \<noteq> [] \<and> length code = 6"
  by (auto simp: isAlphanumeric_def split: if_splits)

lemma TrimPrefix_slash: "TrimPrefix (CHR ''/'' # code) ''/'' = code"
  by (simp add: TrimPrefix_def HasPrefix_def)

lemma mainHandler_redirect:
  assumes "isAlphanumeric code"
  shows "mainHandler (CHR ''/'' # code) now ff df st = redirectHandler code now ff df st"
  using isAlphanumeric_nonempty[OF assms] assms
  by (simp add: mainHandler_def TrimPrefix_slash Let_def)

text \<open>
  Claim C5. For a request \<open>/code\<close> with a well-formed code: a cache hit with \<open>now\<close> before
  its expiry is answered with a 302 redirect to the original URL, and nothing changes; a
  cache hit with \<open>now\<close> at or after its expiry removes the cache entry and continues with
  the store, as a cache miss does; there, a record that has not expired is written to the
  cache and answered with a 302 redirect to its URL; a record that has expired is deleted
  from the store (when the delete call goes through) and answered with not-found; and a
  code without a record is answered with not-found.
\<close>

theorem redirect_outcomes:
  assumes wf: "isAlphanumeric code"
  shows
    "(\<forall>c. fmlookup (cache st) code = Some c \<and> Before now (ItemExpiresAt c) \<longrightarrow>
        mainHandler (CHR ''/'' # code) now findFails deleteFails st
          = (Redirect (OriginalURL c) 302, st))
   \<and> (\<forall>c. fmlookup (cache st) code = Some c \<and> \<not> Before now (ItemExpiresAt c) \<longrightarrow>
        mainHandler (CHR ''/'' # code) now findFails deleteFails st
          = redirectFromStore code now findFails deleteFails
              (st\<lparr>cache := fmdrop code (cache st)\<rparr>))
   \<and> (fmlookup (cache st) code = None \<longrightarrow>
        mainHandler (CHR ''/'' # code) now findFails deleteFails st
          = redirectFromStore code now findFails deleteFails st)
   \<and> (\<forall>u. \<not> findFails \<and> find (\<lambda>u. ShortCode u = code) (col st) = Some u
          \<and> Before now (ExpiresAt u) \<longrightarrow>
        redirectFromStore code now findFails deleteFails st
          = (Redirect (Original u) 302,
             st\<lparr>cache := fmupd code \<lparr>OriginalURL = Original u, ItemExpiresAt = ExpiresAt u\<rparr>
                             (cache st)\<rparr>))
   \<and> (\<forall>u. \<not> findFails \<and> find (\<lambda>u. ShortCode u = code) (col st) = Some u
          \<and> \<not> Before now (ExpiresAt u) \<and> \<not> deleteFails \<longrightarrow>
        redirectFromStore code now findFails deleteFails st
          = (NotFound, st\<lparr>col := deleteFirst (\<lambda>u. ShortCode u = code) (col st)\<rparr>))
   \<and> (find (\<lambda>u. ShortCode u = code) (col st) = None \<longrightarrow>
        redirectFromStore code now findFails deleteFails st = (NotFound, st))"
  by (simp add: mainHandler_redirect[OF wf] redirectHandler_def redirectFromStore_def
      FindOne_def DeleteOne_def)

lemma wf_alwHS3: "isAlphanumeric ''alwHS3''"
  by (simp add: isAlphanumeric_def isLetter_def isDigit_def)

lemma wf_zzzzz9: "isAlphanumeric ''zzzzz9''"
  by (simp add: isAlphanumeric_def isLetter_def isDigit_def)

text \<open>
  The four outcomes on the example server: a valid hit, a miss that is backfilled, an
  expired entry whose record has expired too, and an unknown code.
\<close>

theorem redirect_outcomes_witness:
  "isAlphanumeric ''alwHS3''
   \<and> mainHandler ''/alwHS3'' 63900003600000000000 False False exServer
       = (Redirect ''https://example.com/'' 302, exServer)
   \<and> mainHandler ''/alwHS3'' 63900003600000000000 False False (exServer\<lparr>cache := fmempty\<rparr>)
       = (Redirect ''https://example.com/'' 302, exServer)
   \<and> mainHandler ''/alwHS3'' 64000000000000000000 False False exServer
       = (NotFound, exServer\<lparr>col := [], cache := fmempty\<rparr>)
   \<and> mainHandler ''/zzzzz9'' 63900003600000000000 False False exServer = (NotFound, exServer)"
proof -
  note hit = redirect_outcomes[OF wf_alwHS3, of exServer 63900003600000000000 False False]
  note miss = redirect_outcomes[OF wf_alwHS3, of "exServer\<lparr>cache := fmempty\<rparr>"
      63900003600000000000 False False]
  note old = redirect_outcomes[OF wf_alwHS3, of exServer 64000000000000000000 False False]
  note old' = redirect_outcomes[OF wf_alwHS3, of "exServer\<lparr>cache := fmdrop ''alwHS3'' (cache exServer)\<rparr>"
      64000000000000000000 False False]
  note none = redirect_outcomes[OF wf_zzzzz9, of exServer 63900003600000000000 False False]
  have a: "mainHandler ''/alwHS3'' 63900003600000000000 False False exServer
       = (Redirect ''https://example.com/'' 302, exServer)"
    using hit by (simp add: exServer_def exItem_def Before_def)
  have b: "mainHandler ''/alwHS3'' 63900003600000000000 False False (exServer\<lparr>cache := fmempty\<rparr>)
       = (Redirect ''https://example.com/'' 302, exServer)"
    using miss by (simp add: exServer_def exItem_def exDoc_def Before_def)
  have c: "mainHandler ''/alwHS3'' 64000000000000000000 False False exServer
       = (NotFound, exServer\<lparr>col := [], cache := fmempty\<rparr>)"
    using old old' by (simp add: exServer_def exItem_def exDoc_def Before_def fmdrop_fmupd_same)
  have d: "mainHandler ''/zzzzz9'' 63900003600000000000 False False exServer = (NotFound, exServer)"
    using none by (simp add: exServer_def exItem_def exDoc_def Before_def)
  from wf_alwHS3 a b c d show ?thesis by simp
qed

text \<open>
  Claim C9. For every state and every time \<open>now\<close>, the list operation leaves the state as
  it is and returns exactly the cache entries whose expiry is strictly after \<open>now\<close>, with
  their number: an expired entry is neither returned nor removed.
\<close>

theorem listHandler_unexpired_readonly:
  "snd (listHandler now st) = st
   \<and> (\<exists>items. fst (listHandler now st) = Listing (int (fcard (fmdom items))) items now
        \<and> (\<forall>code item. (fmlookup items code = Some item)
              = (fmlookup (cache st) code = Some item \<and> Before now (ItemExpiresAt item))))"
  by (auto simp: listHandler_def Let_def split: option.splits)

section \<open>Cleanup: properties\<close>

text \<open>
  Claim C3, as amended. A periodic cleanup run whose persistent delete succeeds performs
  the delete of the expired records and then the sweep of the cache. No run touches the
  rate limiter: its sweep is the separate hourly task, which makes no store call and so
  cannot be held up by a failing delete.
\<close>

theorem performCleanup_steps:
  "(\<not> deleteFails \<longrightarrow>
      snd (performCleanup now deleteFails st) = cacheSweepStep now (deleteExpiredStep now st))
   \<and> rateLimitMap (snd (performCleanup now deleteFails st)) = rateLimitMap st
   \<and> rateLimitCleanupTick now st = st\<lparr>rateLimitMap := cleanupRateLimitMap now (rateLimitMap st)\<rparr>"
  by (simp add: performCleanup_def DeleteMany_def Let_def cacheSweepStep_def deleteExpiredStep_def
      rateLimitCleanupTick_def cong del: fmfilter_cong)

text \<open>A run on the example server, 1157 days later: the record and the cache entry go.\<close>

theorem performCleanup_steps_witness:
  "snd (performCleanup 64000000000000000000 False exServer)
     = cacheSweepStep 64000000000000000000 (deleteExpiredStep 64000000000000000000 exServer)
   \<and> col (snd (performCleanup 64000000000000000000 False exServer)) = []
   \<and> fmlookup (cache (snd (performCleanup 64000000000000000000 False exServer))) ''alwHS3'' = None"
  using performCleanup_steps[of False 64000000000000000000 exServer]
  by (simp add: cacheSweepStep_def deleteExpiredStep_def exServer_def exItem_def exDoc_def After_def)

text \<open>
  Claim C3 as stated fails. The run whose delete succeeds leaves a rate-limit entry that
  is older than 24 hours in place, and the run whose delete fails leaves an expired cache
  entry in place.
\<close>

theorem performCleanup_counterexample:
  "rateLimitMap (snd (performCleanup 64000000000000000000 False exServer)) ''203.0.113.0/24''
     = Some \<lparr>Count = 1, FirstSeen = 63900000000000000000, Cooldown = 0\<rparr>
   \<and> Sub 64000000000000000000 63900000000000000000 > 24 * Hour
   \<and> fmlookup (cache (snd (performCleanup 64000000000000000000 True exServer))) ''alwHS3''
     = Some exItem
   \<and> After 64000000000000000000 (ItemExpiresAt exItem)"
  by (simp add: performCleanup_def DeleteMany_def Let_def exServer_def exItem_def exDoc_def
      After_def Sub_def Hour_def Minute_def Second_def maxDuration_def minDuration_def)

text \<open>On a failing delete the run logs the error and ends there.\<close>

lemma performCleanup_failed_delete:
  "performCleanup now True st = ([RunningCleanup, CleanupError StoreError], st)"
  by (simp add: performCleanup_def DeleteMany_def)

end
